theory Spec2Isabelle
  imports Main
begin

section \<open>The integrations commands of newrelic-lambda-cli\<close>

text \<open>
  The source is \<^verbatim>\<open>src/newrelic_lambda_cli/cli/integrations.py\<close>: the three click
  commands \<^verbatim>\<open>install\<close>, \<^verbatim>\<open>uninstall\<close> and \<^verbatim>\<open>update\<close>. Each is a straight-line
  sequence of calls into modules that are not part of this file (\<^verbatim>\<open>boto3\<close>, \<^verbatim>\<open>click\<close>,
  \<^verbatim>\<open>api\<close>, \<^verbatim>\<open>integrations\<close>, \<^verbatim>\<open>permissions\<close>, \<^verbatim>\<open>cliutils\<close>). The embedding keeps the
  commands as they are written and makes their effects explicit:
  \<^item> every call that leaves the file is recorded, in order, as an \<open>event\<close> carrying its
    arguments;
  \<^item> what such a call answers is not decided by this file, so it is read from a
    \<open>world\<close>: for each callee the outcome of its call in the run at hand, either a
    returned value or a raised exception. Every callee is called at most once in a run
    (\<^verbatim>\<open>click.confirm\<close> at most once for each prompt text), so quantifying over all worlds
    covers every run;
  \<^item> a raised exception ends the run where it is raised: nothing in the file catches one.
\<close>

subsection \<open>Values, exceptions and events\<close>

type_synonym tags = "(string \<times> string) list"

text \<open>\<^verbatim>\<open>boto3.Session(profile_name=aws_profile, region_name=aws_region)\<close>.\<close>

datatype session = Session "string option" "string option"

text \<open>The client handle returned by \<^verbatim>\<open>api.validate_gql_credentials\<close>, opaque to this file.\<close>

datatype gql_client = GqlClient nat

text \<open>
  A truthy value returned by \<^verbatim>\<open>integrations.create_integration_role\<close>; a falsy return
  (\<^verbatim>\<open>None\<close>) is \<open>None\<close> of \<open>role option\<close>.
\<close>

datatype role = Role string

datatype py_exn =
    AuthenticationError
  | PermissionError
  | TransportError
  | TypeError
  | Abort
  | Exit

text \<open>
  A Python value that is an integer or a string. \<^verbatim>\<open>nr_account_id\<close> of install comes from
  \<^verbatim>\<open>NR_OPTIONS\<close>, declared outside the file (an integer, \<^verbatim>\<open>click.INT\<close>, as the same option
  of uninstall on line 198); the model takes either.
\<close>

datatype py_value = Py_int int | Py_str string

datatype 'a outcome = Returns 'a | Raises py_exn

datatype event =
    Boto3_Session "string option" "string option"
  | Ensure_integration_install_permissions session
  | Ensure_integration_uninstall_permissions session
  | Echo string
  | Validate_gql_credentials py_value string string
  | Retrieve_license_key gql_client
  | Get_aws_account_id session
  | Validate_linked_account session gql_client string
  | Create_integration_role session "string option" py_value "string option" tags
  | Install_license_key session string tags
  | Create_integration_account gql_client py_value string role
  | Enable_lambda_integration gql_client py_value string
  | Install_log_ingestion session string bool int int "string option" tags
  | Done string
  | Failure string bool
  | Confirm string bool
  | Remove_integration_role session "int option"
  | Remove_log_ingestion_function session
  | Remove_license_key session
  | Update_log_ingestion session "string option" "bool option" "int option" "int option"
      "string option" tags
  | Auto_install_license_key session tags

text \<open>
  The outcome of each call that leaves the file. A \<open>bool\<close> stands for the truthiness of
  the returned value, which is all the source looks at (\<^verbatim>\<open>res and install_success\<close>,
  \<^verbatim>\<open>if install_success\<close>); the calls whose value the source drops return a \<open>bool\<close>
  too, so that a reported failure of theirs can be told from a success.
\<close>

record world =
  boto3_Session :: "unit outcome"
  ensure_integration_install_permissions :: "unit outcome"
  ensure_integration_uninstall_permissions :: "unit outcome"
  validate_gql_credentials :: "gql_client outcome"
  retrieve_license_key :: "string outcome"
  get_aws_account_id :: "string outcome"
  validate_linked_account :: "unit outcome"
  create_integration_role :: "role option outcome"
  install_license_key :: "bool outcome"
  create_integration_account :: "bool outcome"
  enable_lambda_integration :: "bool outcome"
  install_log_ingestion :: "bool outcome"
  click_confirm :: "string \<Rightarrow> bool outcome"
  remove_integration_role :: "bool outcome"
  remove_log_ingestion_function :: "bool outcome"
  remove_license_key :: "bool outcome"
  update_log_ingestion :: "bool outcome"
  auto_install_license_key :: "bool outcome"

subsection \<open>Runs: a trace of events and a result\<close>

type_synonym 'a prog = "event list \<times> (py_exn + 'a)"

definition trace :: "'a prog \<Rightarrow> event list" where
  "trace m = fst m"

definition result :: "'a prog \<Rightarrow> py_exn + 'a" where
  "result m = snd m"

definition ret :: "'a \<Rightarrow> 'a prog" where
  "ret v = ([], Inr v)"

definition raise :: "py_exn \<Rightarrow> 'a prog" where
  "raise e = ([], Inl e)"

definition bind :: "'a prog \<Rightarrow> ('a \<Rightarrow> 'b prog) \<Rightarrow> 'b prog" where
  "bind m k =
     (case m of
        (t, Inl e) \<Rightarrow> (t, Inl e)
      | (t, Inr v) \<Rightarrow> (case k v of (t', r) \<Rightarrow> (t @ t', r)))"

definition call :: "event \<Rightarrow> 'a outcome \<Rightarrow> 'a prog" where
  "call ev out = ([ev], case out of Raises e \<Rightarrow> Inl e | Returns v \<Rightarrow> Inr v)"

text \<open>\<^verbatim>\<open>click.echo(message)\<close>: prints and returns.\<close>

definition echo :: "string \<Rightarrow> unit prog" where
  "echo message = ([Echo message], Inr ())"

text \<open>
  Modelled from the spec: \<^verbatim>\<open>cliutils.done\<close> and \<^verbatim>\<open>cliutils.failure\<close> are imported by
  the source and missing from it. "Report success/failure"; "on overall failure, a
  single summary failure message is printed referencing earlier per-step messages; the
  process exits non-zero". So \<open>done\<close> prints and returns, and \<open>failure\<close> prints and, with
  \<^verbatim>\<open>exit=True\<close>, ends the run by an exit.
\<close>

definition done_msg :: "string \<Rightarrow> unit prog" where
  "done_msg message = ([Done message], Inr ())"

definition failure :: "string \<Rightarrow> bool \<Rightarrow> unit prog" where
  "failure message exit = ([Failure message exit], if exit then Inl Exit else Inr ())"

text \<open>
  \<^verbatim>\<open>click.confirm(text, abort=...)\<close>: asks, and returns the answer; with \<^verbatim>\<open>abort=True\<close> a
  negative answer raises \<^verbatim>\<open>click.Abort\<close> instead of returning.
\<close>

definition confirm :: "world \<Rightarrow> string \<Rightarrow> bool \<Rightarrow> bool prog" where
  "confirm w text abort =
     (case click_confirm w text of
        Raises e \<Rightarrow> ([Confirm text abort], Inl e)
      | Returns answer \<Rightarrow>
          if abort \<and> \<not> answer then ([Confirm text abort], Inl Abort)
          else ([Confirm text abort], Inr answer))"

text \<open>Python truthiness of an optional string and of an optional integer.\<close>

definition truthy_str :: "string option \<Rightarrow> bool" where
  "truthy_str s = (case s of None \<Rightarrow> False | Some x \<Rightarrow> x \<noteq> [])"

definition truthy_int :: "int option \<Rightarrow> bool" where
  "truthy_int n = (case n of None \<Rightarrow> False | Some x \<Rightarrow> x \<noteq> 0)"

definition str_of :: "string option \<Rightarrow> string" where
  "str_of s = (case s of None \<Rightarrow> ''None'' | Some x \<Rightarrow> x)"

text \<open>
  \<^verbatim>\<open>sep.join(items)\<close>: the strings joined by \<open>sep\<close>; an item that is not a string raises
  \<^verbatim>\<open>TypeError\<close>.
\<close>

fun py_join :: "string \<Rightarrow> py_value list \<Rightarrow> py_exn + string" where
  "py_join sep [] = Inr []"
| "py_join sep (Py_int n # xs) = Inl TypeError"
| "py_join sep (Py_str x # xs) =
     (case py_join sep xs of
        Inl e \<Rightarrow> Inl e
      | Inr rest \<Rightarrow> Inr (if xs = [] then x else x @ sep @ rest))"

subsection \<open>install (lines 93 to 186)\<close>

text \<open>
  Lines 165 to 184: the next-steps hint, printed under \<^verbatim>\<open>ctx.obj["VERBOSE"]\<close>, which
  install takes here as its first argument \<open>verbose\<close>.
  The source puts \<^verbatim>\<open>nr_account_id\<close> itself into the list it joins with \<^verbatim>\<open>" ".join\<close>
  (line 184), so with an integer account id the join raises \<^verbatim>\<open>TypeError\<close>, after the
  completion message and the first line of the hint have been printed.
\<close>

definition next_steps :: "string option \<Rightarrow> string option \<Rightarrow> py_value \<Rightarrow> unit prog" where
  "next_steps aws_profile aws_region nr_account_id =
     bind (echo ''\<newline>Next steps: Add the New Relic layers to your Lambda functions with the below command.\<newline>'') (\<lambda>_.
     let command =
           [Py_str ''$'', Py_str ''newrelic-lambda'', Py_str ''layers'', Py_str ''install'',
            Py_str ''--function'', Py_str ''all'', Py_str ''--nr-account-id'', nr_account_id]
           @ (if truthy_str aws_profile
              then [Py_str (''--aws-profile '' @ str_of aws_profile)] else [])
           @ (if truthy_str aws_region
              then [Py_str (''--aws-region '' @ str_of aws_region)] else [])
     in case py_join '' '' command of
          Inl e \<Rightarrow> raise e
        | Inr line \<Rightarrow> echo line)"

definition install ::
  "bool \<Rightarrow> string option \<Rightarrow> string option \<Rightarrow> bool \<Rightarrow> string option \<Rightarrow> bool \<Rightarrow> int \<Rightarrow>
   string option \<Rightarrow> py_value \<Rightarrow> string \<Rightarrow> string \<Rightarrow> int \<Rightarrow> string option \<Rightarrow> bool \<Rightarrow>
   string option \<Rightarrow> tags \<Rightarrow> world \<Rightarrow> unit prog" where
  "install verbose aws_profile aws_region aws_permissions_check aws_role_policy enable_logs
     memory_size linked_account_name nr_account_id nr_api_key nr_region timeout role_name
     enable_license_key_secret integration_arn tags w =
   bind (call (Boto3_Session aws_profile aws_region) (boto3_Session w)) (\<lambda>_.
   let session = Session aws_profile aws_region in
   bind (if aws_permissions_check
         then call (Ensure_integration_install_permissions session)
                (ensure_integration_install_permissions w)
         else ret ()) (\<lambda>_.
   bind (echo ''Validating New Relic credentials'') (\<lambda>_.
   bind (call (Validate_gql_credentials nr_account_id nr_api_key nr_region)
           (validate_gql_credentials w)) (\<lambda>gql_client.
   bind (echo ''Retrieving integration license key'') (\<lambda>_.
   bind (call (Retrieve_license_key gql_client) (retrieve_license_key w)) (\<lambda>nr_license_key.
   bind (if \<not> truthy_str linked_account_name
         then bind (call (Get_aws_account_id session) (get_aws_account_id w)) (\<lambda>aws_account_id.
              ret (''New Relic Lambda Integration - '' @ aws_account_id))
         else ret (str_of linked_account_name)) (\<lambda>linked_account_name.
   bind (echo ''Checking for a pre-existing link between New Relic and AWS'') (\<lambda>_.
   bind (call (Validate_linked_account session gql_client linked_account_name)
           (validate_linked_account w)) (\<lambda>_.
   bind (echo ''Creating the AWS role for the New Relic AWS Lambda Integration'') (\<lambda>_.
   bind (call (Create_integration_role session aws_role_policy nr_account_id integration_arn tags)
           (create_integration_role w)) (\<lambda>role.
   bind (if enable_license_key_secret
         then bind (echo ''Creating the managed secret for the New Relic License Key'') (\<lambda>_.
              bind (call (Install_license_key session nr_license_key tags)
                      (install_license_key w)) (\<lambda>_. ret ()))
         else ret ()) (\<lambda>_.
   let install_success = True in
   bind (case role of
           Some r \<Rightarrow>
             bind (echo ''Linking New Relic account to AWS account'') (\<lambda>_.
             bind (call (Create_integration_account gql_client nr_account_id linked_account_name r)
                     (create_integration_account w)) (\<lambda>res.
             let install_success = (res \<and> install_success) in
             bind (echo ''Enabling Lambda integration on the link between New Relic and AWS'') (\<lambda>_.
             bind (call (Enable_lambda_integration gql_client nr_account_id linked_account_name)
                     (enable_lambda_integration w)) (\<lambda>res.
             ret (res \<and> install_success)))))
         | None \<Rightarrow> ret install_success) (\<lambda>install_success.
   bind (echo ''Creating newrelic-log-ingestion Lambda function in AWS account'') (\<lambda>_.
   bind (call (Install_log_ingestion session nr_license_key enable_logs memory_size timeout
                 role_name tags)
           (install_log_ingestion w)) (\<lambda>res.
   let install_success = (res \<and> install_success) in
   if install_success
   then bind (done_msg ''Install Complete'') (\<lambda>_.
        if verbose then next_steps aws_profile aws_region nr_account_id else ret ())
   else failure ''Install Incomplete. See messages above for details.'' True)))))))))))))))"

subsection \<open>uninstall (lines 201 to 239)\<close>

definition role_prompt :: string where
  "role_prompt = ''This will uninstall the New Relic AWS Lambda integration role. Are you sure you want to proceed?''"

definition function_prompt :: string where
  "function_prompt = ''This will uninstall the New Relic AWS Lambda log ingestion function and role. Are you sure you want to proceed?''"

definition secret_prompt :: string where
  "secret_prompt = ''This will uninstall the New Relic License Key managed secret, and IAM Policy. Are you sure you want to proceed?''"

definition uninstall ::
  "string option \<Rightarrow> string option \<Rightarrow> bool \<Rightarrow> int option \<Rightarrow> bool \<Rightarrow> world \<Rightarrow> unit prog" where
  "uninstall aws_profile aws_region aws_permissions_check nr_account_id force w =
   bind (call (Boto3_Session aws_profile aws_region) (boto3_Session w)) (\<lambda>_.
   let session = Session aws_profile aws_region in
   bind (if aws_permissions_check
         then call (Ensure_integration_uninstall_permissions session)
                (ensure_integration_uninstall_permissions w)
         else ret ()) (\<lambda>_.
   bind (if \<not> force \<and> truthy_int nr_account_id
         then confirm w role_prompt False
         else ret True) (\<lambda>uninstall_integration.
   bind (if uninstall_integration \<and> truthy_int nr_account_id
         then bind (call (Remove_integration_role session nr_account_id)
                      (remove_integration_role w)) (\<lambda>_. ret ())
         else ret ()) (\<lambda>_.
   bind (if \<not> force
         then bind (confirm w function_prompt True) (\<lambda>_. ret ())
         else ret ()) (\<lambda>_.
   bind (call (Remove_log_ingestion_function session) (remove_log_ingestion_function w)) (\<lambda>_.
   bind (if \<not> force
         then bind (confirm w secret_prompt True) (\<lambda>_. ret ())
         else ret ()) (\<lambda>_.
   bind (call (Remove_license_key session) (remove_license_key w)) (\<lambda>_.
   done_msg ''Uninstall Complete''))))))))"

subsection \<open>update (lines 285 to 320)\<close>

text \<open>
  Line 311 is \<^verbatim>\<open>update_success and integrations.auto_install_license_key(session, tags)\<close>:
  Python's \<^verbatim>\<open>and\<close> evaluates its right operand only when the left one is truthy, so the
  call is made only then.
\<close>

definition update ::
  "string option \<Rightarrow> string option \<Rightarrow> bool \<Rightarrow> bool option \<Rightarrow> int option \<Rightarrow> int option \<Rightarrow>
   string option \<Rightarrow> bool \<Rightarrow> tags \<Rightarrow> world \<Rightarrow> unit prog" where
  "update aws_profile aws_region aws_permissions_check enable_logs memory_size timeout
     role_name enable_license_key_secret tags w =
   bind (call (Boto3_Session aws_profile aws_region) (boto3_Session w)) (\<lambda>_.
   let session = Session aws_profile aws_region in
   bind (if aws_permissions_check
         then call (Ensure_integration_install_permissions session)
                (ensure_integration_install_permissions w)
         else ret ()) (\<lambda>_.
   let update_success = True in
   bind (echo ''Updating newrelic-log-ingestion Lambda function in AWS account'') (\<lambda>_.
   bind (call (Update_log_ingestion session None enable_logs memory_size timeout role_name tags)
           (update_log_ingestion w)) (\<lambda>res.
   let update_success = (res \<and> update_success) in
   bind (if enable_license_key_secret
         then (if update_success
               then call (Auto_install_license_key session tags) (auto_install_license_key w)
               else ret update_success)
         else bind (call (Remove_license_key session) (remove_license_key w)) (\<lambda>_.
              ret update_success)) (\<lambda>update_success.
   if update_success
   then done_msg ''Update Complete''
   else failure ''Update Incomplete. See messages above for details.'' True)))))"

subsection \<open>Observing a run\<close>

text \<open>An event of some kind occurs in the trace of a run.\<close>

definition occurs :: "(event \<Rightarrow> bool) \<Rightarrow> 'a prog \<Rightarrow> bool" where
  "occurs P m = (\<exists>e \<in> set (trace m). P e)"

text \<open>
  \<open>precedes P Q t\<close>: scanning the trace \<open>t\<close> from its start, no event of kind \<open>Q\<close> is met
  before the first event of kind \<open>P\<close>.
\<close>

fun precedes :: "(event \<Rightarrow> bool) \<Rightarrow> (event \<Rightarrow> bool) \<Rightarrow> event list \<Rightarrow> bool" where
  "precedes P Q [] = True"
| "precedes P Q (e # t) = (P e \<or> (\<not> Q e \<and> precedes P Q t))"

definition returns :: "'a outcome \<Rightarrow> bool" where
  "returns out = (case out of Returns _ \<Rightarrow> True | Raises _ \<Rightarrow> False)"

text \<open>The kinds of call the claims speak of.\<close>

definition is_validate_credentials :: "event \<Rightarrow> bool" where
  "is_validate_credentials e = (case e of Validate_gql_credentials _ _ _ \<Rightarrow> True | _ \<Rightarrow> False)"

definition is_create_role :: "event \<Rightarrow> bool" where
  "is_create_role e = (case e of Create_integration_role _ _ _ _ _ \<Rightarrow> True | _ \<Rightarrow> False)"

definition is_install_secret :: "event \<Rightarrow> bool" where
  "is_install_secret e = (case e of Install_license_key _ _ _ \<Rightarrow> True | _ \<Rightarrow> False)"

definition is_create_link :: "event \<Rightarrow> bool" where
  "is_create_link e = (case e of Create_integration_account _ _ _ _ \<Rightarrow> True | _ \<Rightarrow> False)"

definition is_enable_flag :: "event \<Rightarrow> bool" where
  "is_enable_flag e = (case e of Enable_lambda_integration _ _ _ \<Rightarrow> True | _ \<Rightarrow> False)"

definition is_install_ingestion :: "event \<Rightarrow> bool" where
  "is_install_ingestion e = (case e of Install_log_ingestion _ _ _ _ _ _ _ \<Rightarrow> True | _ \<Rightarrow> False)"

definition is_update_ingestion :: "event \<Rightarrow> bool" where
  "is_update_ingestion e = (case e of Update_log_ingestion _ _ _ _ _ _ _ \<Rightarrow> True | _ \<Rightarrow> False)"

definition is_auto_install_secret :: "event \<Rightarrow> bool" where
  "is_auto_install_secret e = (case e of Auto_install_license_key _ _ \<Rightarrow> True | _ \<Rightarrow> False)"

definition is_remove_role :: "event \<Rightarrow> bool" where
  "is_remove_role e = (case e of Remove_integration_role _ _ \<Rightarrow> True | _ \<Rightarrow> False)"

definition is_remove_function :: "event \<Rightarrow> bool" where
  "is_remove_function e = (case e of Remove_log_ingestion_function _ \<Rightarrow> True | _ \<Rightarrow> False)"

definition is_remove_secret :: "event \<Rightarrow> bool" where
  "is_remove_secret e = (case e of Remove_license_key _ \<Rightarrow> True | _ \<Rightarrow> False)"

definition is_confirm :: "event \<Rightarrow> bool" where
  "is_confirm e = (case e of Confirm _ _ \<Rightarrow> True | _ \<Rightarrow> False)"

definition is_done :: "event \<Rightarrow> bool" where
  "is_done e = (case e of Done _ \<Rightarrow> True | _ \<Rightarrow> False)"

text \<open>
  The calls of install that change something in the cloud account or on the platform:
  role, secret, linked account, feature flag, ingestion function.
\<close>

definition is_install_mutation :: "event \<Rightarrow> bool" where
  "is_install_mutation e =
     (is_create_role e \<or> is_install_secret e \<or> is_create_link e \<or> is_enable_flag e
      \<or> is_install_ingestion e)"

text \<open>The calls update is made of: session, pre-flight check, printing, function, secret.\<close>

definition is_update_call :: "event \<Rightarrow> bool" where
  "is_update_call e =
     (case e of
        Boto3_Session _ _ \<Rightarrow> True
      | Ensure_integration_install_permissions _ \<Rightarrow> True
      | Echo _ \<Rightarrow> True
      | Update_log_ingestion _ _ _ _ _ _ _ \<Rightarrow> True
      | Auto_install_license_key _ _ \<Rightarrow> True
      | Remove_license_key _ \<Rightarrow> True
      | Done _ \<Rightarrow> True
      | Failure _ _ \<Rightarrow> True
      | _ \<Rightarrow> False)"

text \<open>
  The overall success a run reports at its end: \<open>Some True\<close> when it printed the
  completion message, \<open>Some False\<close> when it printed the failure message and exited,
  \<open>None\<close> when it ended before reporting.
\<close>

definition reported :: "string \<Rightarrow> string \<Rightarrow> 'a prog \<Rightarrow> bool option" where
  "reported complete incomplete p =
     (if Done complete \<in> set (trace p) then Some True
      else if Failure incomplete True \<in> set (trace p) then Some False
      else None)"

definition install_reported :: "unit prog \<Rightarrow> bool option" where
  "install_reported p =
     reported ''Install Complete'' ''Install Incomplete. See messages above for details.'' p"

definition update_reported :: "unit prog \<Rightarrow> bool option" where
  "update_reported p =
     reported ''Update Complete'' ''Update Incomplete. See messages above for details.'' p"

text \<open>No call made by the command raises, whatever it returns.\<close>

definition install_calls_return :: "world \<Rightarrow> bool" where
  "install_calls_return w =
     (returns (boto3_Session w) \<and> returns (ensure_integration_install_permissions w)
      \<and> returns (validate_gql_credentials w) \<and> returns (retrieve_license_key w)
      \<and> returns (get_aws_account_id w) \<and> returns (validate_linked_account w)
      \<and> returns (create_integration_role w) \<and> returns (install_license_key w)
      \<and> returns (create_integration_account w) \<and> returns (enable_lambda_integration w)
      \<and> returns (install_log_ingestion w))"

definition uninstall_calls_return :: "world \<Rightarrow> bool" where
  "uninstall_calls_return w =
     (returns (boto3_Session w) \<and> returns (ensure_integration_uninstall_permissions w)
      \<and> returns (remove_integration_role w) \<and> returns (remove_log_ingestion_function w)
      \<and> returns (remove_license_key w))"

definition update_calls_return :: "world \<Rightarrow> bool" where
  "update_calls_return w =
     (returns (boto3_Session w) \<and> returns (ensure_integration_install_permissions w)
      \<and> returns (update_log_ingestion w) \<and> returns (auto_install_license_key w)
      \<and> returns (remove_license_key w))"

text \<open>A world in which every call returns success and the user answers yes.\<close>

definition world_ok :: world where
  "world_ok =
     \<lparr> boto3_Session = Returns (),
       ensure_integration_install_permissions = Returns (),
       ensure_integration_uninstall_permissions = Returns (),
       validate_gql_credentials = Returns (GqlClient 0),
       retrieve_license_key = Returns ''license'',
       get_aws_account_id = Returns ''123456789012'',
       validate_linked_account = Returns (),
       create_integration_role = Returns (Some (Role ''arn:aws:iam::123456789012:role/nr'')),
       install_license_key = Returns True,
       create_integration_account = Returns True,
       enable_lambda_integration = Returns True,
       install_log_ingestion = Returns True,
       click_confirm = (\<lambda>_. Returns True),
       remove_integration_role = Returns True,
       remove_log_ingestion_function = Returns True,
       remove_license_key = Returns True,
       update_log_ingestion = Returns True,
       auto_install_license_key = Returns True \<rparr>"

text \<open>The events that follow the first event of kind \<open>P\<close> in a trace.\<close>

fun after :: "(event \<Rightarrow> bool) \<Rightarrow> event list \<Rightarrow> event list" where
  "after P [] = []"
| "after P (e # t) = (if P e then t else after P t)"

text \<open>Worlds that differ from \<open>world_ok\<close> in one answer.\<close>

definition world_secret_fails :: world where
  "world_secret_fails = world_ok\<lparr>install_license_key := Returns False\<rparr>"

definition world_update_fails :: world where
  "world_update_fails = world_ok\<lparr>update_log_ingestion := Returns False\<rparr>"

definition world_removals_fail :: world where
  "world_removals_fail =
     world_ok\<lparr>remove_integration_role := Returns False,
       remove_log_ingestion_function := Returns False,
       remove_license_key := Returns False\<rparr>"

definition world_bad_credentials :: world where
  "world_bad_credentials = world_ok\<lparr>validate_gql_credentials := Raises AuthenticationError\<rparr>"

definition world_no_role :: world where
  "world_no_role = world_ok\<lparr>create_integration_role := Returns None\<rparr>"

definition world_declines_function :: world where
  "world_declines_function =
     world_ok\<lparr>click_confirm := (\<lambda>text. Returns (text \<noteq> function_prompt))\<rparr>"

definition world_declines_secret :: world where
  "world_declines_secret =
     world_ok\<lparr>click_confirm := (\<lambda>text. Returns (text \<noteq> secret_prompt))\<rparr>"

section \<open>Reasoning about runs\<close>

lemma occurs_bind:
  "occurs P (bind m k) \<longleftrightarrow> occurs P m \<or> (\<exists>v. result m = Inr v \<and> occurs P (k v))"
  by (cases m) (auto simp: occurs_def bind_def trace_def result_def split: sum.splits prod.splits)

lemma result_bind:
  "result (bind m k) = Inr v \<longleftrightarrow> (\<exists>u. result m = Inr u \<and> result (k u) = Inr v)"
  by (cases m) (auto simp: bind_def result_def split: sum.splits prod.splits)

lemma result_bind_Inl:
  "result (bind m k) = Inl e \<longleftrightarrow>
     result m = Inl e \<or> (\<exists>u. result m = Inr u \<and> result (k u) = Inl e)"
  by (cases m) (auto simp: bind_def result_def split: sum.splits prod.splits)

lemma trace_bind:
  "trace (bind m k) = trace m @ (case result m of Inl e \<Rightarrow> [] | Inr v \<Rightarrow> trace (k v))"
  by (cases m) (auto simp: bind_def trace_def result_def split: sum.splits prod.splits)

lemma occurs_call: "occurs P (call ev out) \<longleftrightarrow> P ev"
  by (simp add: occurs_def call_def trace_def)

lemma result_call: "result (call ev out) = Inr v \<longleftrightarrow> out = Returns v"
  by (simp add: call_def result_def split: outcome.splits)

lemma result_call_Inl: "result (call ev out) = Inl e \<longleftrightarrow> out = Raises e"
  by (simp add: call_def result_def split: outcome.splits)

lemma trace_call: "trace (call ev out) = [ev]"
  by (simp add: call_def trace_def)

lemma occurs_echo: "occurs P (echo s) \<longleftrightarrow> P (Echo s)"
  by (simp add: occurs_def echo_def trace_def)

lemma result_echo: "result (echo s) = Inr v"
  by (simp add: echo_def result_def)

lemma trace_echo: "trace (echo s) = [Echo s]"
  by (simp add: echo_def trace_def)

lemma occurs_done: "occurs P (done_msg s) \<longleftrightarrow> P (Done s)"
  by (simp add: occurs_def done_msg_def trace_def)

lemma result_done: "result (done_msg s) = Inr v"
  by (simp add: done_msg_def result_def)

lemma trace_done: "trace (done_msg s) = [Done s]"
  by (simp add: done_msg_def trace_def)

lemma occurs_failure: "occurs P (failure s x) \<longleftrightarrow> P (Failure s x)"
  by (simp add: occurs_def failure_def trace_def)

lemma result_failure: "result (failure s x) = Inr v \<longleftrightarrow> \<not> x"
  by (simp add: failure_def result_def)

lemma result_failure_Inl: "result (failure s x) = Inl e \<longleftrightarrow> x \<and> e = Exit"
  by (auto simp add: failure_def result_def)

lemma trace_failure: "trace (failure s x) = [Failure s x]"
  by (simp add: failure_def trace_def)

lemma occurs_ret: "\<not> occurs P (ret v)"
  by (simp add: occurs_def ret_def trace_def)

lemma result_ret: "result (ret v) = Inr u \<longleftrightarrow> u = v"
  by (auto simp add: ret_def result_def)

lemma result_ret_Inl: "result (ret v) \<noteq> Inl e"
  by (simp add: ret_def result_def)

lemma trace_ret: "trace (ret v) = []"
  by (simp add: ret_def trace_def)

lemma occurs_raise: "\<not> occurs P (raise e)"
  by (simp add: occurs_def raise_def trace_def)

lemma result_raise: "result (raise e) \<noteq> Inr v"
  by (simp add: raise_def result_def)

lemma result_raise_Inl: "result (raise e) = Inl e' \<longleftrightarrow> e' = e"
  by (auto simp add: raise_def result_def)

lemma trace_raise: "trace (raise e) = []"
  by (simp add: raise_def trace_def)

lemma occurs_confirm: "occurs P (confirm w text abort) \<longleftrightarrow> P (Confirm text abort)"
  by (simp add: occurs_def confirm_def trace_def split: outcome.splits)

lemma result_confirm:
  "result (confirm w text abort) = Inr v \<longleftrightarrow>
     click_confirm w text = Returns v \<and> (v \<or> \<not> abort)"
  by (auto simp add: confirm_def result_def split: outcome.splits)

lemma result_confirm_Inl:
  "result (confirm w text abort) = Inl e \<longleftrightarrow>
     click_confirm w text = Raises e
     \<or> (click_confirm w text = Returns False \<and> abort \<and> e = Abort)"
  by (auto simp add: confirm_def result_def split: outcome.splits)

lemma trace_confirm: "trace (confirm w text abort) = [Confirm text abort]"
  by (simp add: confirm_def trace_def split: outcome.splits)

lemma occurs_if:
  "occurs P (if c then a else b) \<longleftrightarrow> (c \<and> occurs P a) \<or> (\<not> c \<and> occurs P b)"
  by simp

lemma result_if:
  "result (if c then a else b) = r \<longleftrightarrow> (c \<and> result a = r) \<or> (\<not> c \<and> result b = r)"
  by simp

lemma occurs_case_option:
  "occurs P (case r of None \<Rightarrow> a | Some x \<Rightarrow> b x) \<longleftrightarrow>
     (r = None \<and> occurs P a) \<or> (\<exists>x. r = Some x \<and> occurs P (b x))"
  by (simp split: option.splits)

lemma result_case_option:
  "result (case r of None \<Rightarrow> a | Some x \<Rightarrow> b x) = v \<longleftrightarrow>
     (r = None \<and> result a = v) \<or> (\<exists>x. r = Some x \<and> result (b x) = v)"
  by (simp split: option.splits)

lemma occurs_case_sum:
  "occurs P (case r of Inl e \<Rightarrow> a e | Inr v \<Rightarrow> b v) \<longleftrightarrow>
     (\<exists>e. r = Inl e \<and> occurs P (a e)) \<or> (\<exists>v. r = Inr v \<and> occurs P (b v))"
  by (simp split: sum.splits)

lemma result_case_sum:
  "result (case r of Inl e \<Rightarrow> a e | Inr v \<Rightarrow> b v) = x \<longleftrightarrow>
     (\<exists>e. r = Inl e \<and> result (a e) = x) \<or> (\<exists>v. r = Inr v \<and> result (b v) = x)"
  by (simp split: sum.splits)

lemmas occurs_simps =
  occurs_bind result_bind occurs_call result_call occurs_echo result_echo
  occurs_done result_done occurs_failure result_failure occurs_ret result_ret
  occurs_raise result_raise
  occurs_confirm result_confirm occurs_if result_if occurs_case_option result_case_option
  occurs_case_sum result_case_sum
  next_steps_def Let_def

lemmas result_Inl_simps =
  result_bind_Inl result_call_Inl result_failure_Inl result_ret_Inl result_raise_Inl
  result_confirm_Inl

lemmas trace_simps =
  trace_bind trace_call trace_echo trace_done trace_failure trace_ret trace_raise
  trace_confirm

lemmas kind_defs =
  is_validate_credentials_def is_create_role_def is_install_secret_def is_create_link_def
  is_enable_flag_def is_install_ingestion_def is_update_ingestion_def
  is_auto_install_secret_def is_remove_role_def is_remove_function_def is_remove_secret_def
  is_confirm_def is_done_def is_install_mutation_def is_update_call_def

lemma occurs_member: "e \<in> set (trace m) \<longleftrightarrow> occurs (\<lambda>x. x = e) m"
  by (simp add: occurs_def)

text \<open>The same facts as rewrite rules, to run a command in a given world.\<close>

lemma result_bind_eq:
  "result (bind m k) = (case result m of Inl e \<Rightarrow> Inl e | Inr v \<Rightarrow> result (k v))"
  by (cases m) (auto simp: bind_def result_def split: sum.splits prod.splits)

lemma result_call_eq:
  "result (call ev out) = (case out of Raises e \<Rightarrow> Inl e | Returns v \<Rightarrow> Inr v)"
  by (simp add: call_def result_def)

lemma result_ret_eq: "result (ret v) = Inr v"
  by (simp add: ret_def result_def)

lemma result_raise_eq: "result (raise e) = Inl e"
  by (simp add: raise_def result_def)

lemma result_echo_eq: "result (echo s) = Inr ()"
  by (simp add: echo_def result_def)

lemma result_done_eq: "result (done_msg s) = Inr ()"
  by (simp add: done_msg_def result_def)

lemma result_failure_eq: "result (failure s x) = (if x then Inl Exit else Inr ())"
  by (simp add: failure_def result_def)

lemma result_confirm_eq:
  "result (confirm w text abort) =
     (case click_confirm w text of
        Raises e \<Rightarrow> Inl e
      | Returns answer \<Rightarrow> if abort \<and> \<not> answer then Inl Abort else Inr answer)"
  by (simp add: confirm_def result_def split: outcome.splits)

lemmas eval_simps =
  trace_simps result_bind_eq result_call_eq result_ret_eq result_raise_eq result_echo_eq
  result_done_eq
  result_failure_eq result_confirm_eq occurs_def next_steps_def Let_def world_ok_def
  truthy_str_def truthy_int_def str_of_def

lemmas world_defs =
  world_secret_fails_def world_update_fails_def world_removals_fail_def
  world_bad_credentials_def world_no_role_def world_declines_function_def
  world_declines_secret_def

lemmas prompt_defs = role_prompt_def function_prompt_def secret_prompt_def

lemma returnsE: "returns out \<Longrightarrow> \<exists>v. out = Returns v"
  by (cases out) (simp_all add: returns_def)

subsection \<open>Order of events\<close>

lemma precedes_append:
  "precedes P Q (xs @ ys) \<longleftrightarrow> precedes P Q xs \<and> ((\<exists>e \<in> set xs. P e) \<or> precedes P Q ys)"
  by (induction xs) auto

lemma precedes_bind:
  "precedes P Q (trace (bind m k)) \<longleftrightarrow>
     precedes P Q (trace m)
     \<and> (occurs P m \<or> (\<forall>v. result m = Inr v \<longrightarrow> precedes P Q (trace (k v))))"
  by (cases "result m") (auto simp: trace_bind precedes_append occurs_def)

lemma precedes_if:
  "precedes P Q (trace (if c then a else b)) \<longleftrightarrow>
     (c \<longrightarrow> precedes P Q (trace a)) \<and> (\<not> c \<longrightarrow> precedes P Q (trace b))"
  by simp

lemma precedes_case_sum:
  "precedes P Q (trace (case r of Inl e \<Rightarrow> a e | Inr v \<Rightarrow> b v)) \<longleftrightarrow>
     (\<forall>e. r = Inl e \<longrightarrow> precedes P Q (trace (a e)))
     \<and> (\<forall>v. r = Inr v \<longrightarrow> precedes P Q (trace (b v)))"
  by (simp split: sum.splits)

lemma precedes_case_option:
  "precedes P Q (trace (case r of None \<Rightarrow> a | Some x \<Rightarrow> b x)) \<longleftrightarrow>
     (r = None \<longrightarrow> precedes P Q (trace a))
     \<and> (\<forall>x. r = Some x \<longrightarrow> precedes P Q (trace (b x)))"
  by (simp split: option.splits)

lemmas precedes_simps =
  precedes_bind precedes_if precedes_case_option precedes_case_sum
  trace_call trace_echo trace_done trace_failure trace_ret trace_raise trace_confirm

lemma after_append:
  "after P (xs @ ys) = (if \<exists>e \<in> set xs. P e then after P xs @ ys else after P ys)"
  by (induction xs) auto

lemma after_none: "\<forall>x \<in> set xs. \<not> P x \<Longrightarrow> after P xs = []"
  by (induction xs) auto

lemma trace_bind_Nil:
  "trace (bind m k) = [] \<longleftrightarrow> trace m = [] \<and> (\<forall>v. result m = Inr v \<longrightarrow> trace (k v) = [])"
  by (cases "result m") (auto simp: trace_bind)

lemma after_bind_Nil:
  "after P (trace (bind m k)) = [] \<longleftrightarrow>
     (occurs P m \<and> after P (trace m) = [] \<and> (\<forall>v. result m = Inr v \<longrightarrow> trace (k v) = []))
     \<or> (\<not> occurs P m \<and> (\<forall>v. result m = Inr v \<longrightarrow> after P (trace (k v)) = []))"
  by (cases "result m") (auto simp: trace_bind after_append occurs_def after_none)

lemma after_if_Nil:
  "after P (trace (if c then a else b)) = [] \<longleftrightarrow>
     (c \<and> after P (trace a) = []) \<or> (\<not> c \<and> after P (trace b) = [])"
  by simp

lemma trace_if_Nil:
  "trace (if c then a else b) = [] \<longleftrightarrow> (c \<and> trace a = []) \<or> (\<not> c \<and> trace b = [])"
  by simp

lemmas after_simps =
  after_bind_Nil trace_bind_Nil after_if_Nil trace_if_Nil
  trace_call trace_echo trace_done trace_failure trace_ret trace_raise trace_confirm

subsection \<open>What install and update fold into their report\<close>

text \<open>
  Whenever install reports, the reported value is the conjunction of the link creation
  and the flag enablement (when a role came back) and of the ingestion-function
  creation. The outcome of \<^verbatim>\<open>install_license_key\<close> is not part of it: line 139 drops the
  returned value, and \<^verbatim>\<open>install_success\<close> is first assigned on line 141.
\<close>

lemma install_reported_eq:
  assumes "install_reported
             (install verbose aws_profile aws_region aws_permissions_check aws_role_policy
                enable_logs memory_size linked_account_name nr_account_id nr_api_key nr_region
                timeout role_name enable_license_key_secret integration_arn tags w) = Some b"
  shows "b = ((case create_integration_role w of
                 Returns (Some r) \<Rightarrow>
                   create_integration_account w = Returns True
                   \<and> enable_lambda_integration w = Returns True
               | _ \<Rightarrow> True)
              \<and> install_log_ingestion w = Returns True)"
  using assms
  apply (simp add: install_reported_def reported_def occurs_member split: if_splits)
   apply (auto simp add: install_def occurs_simps)
  done

lemma reported_None:
  "reported c i p \<noteq> None \<longleftrightarrow> occurs (\<lambda>e. e = Done c \<or> e = Failure i True) p"
  by (auto simp: reported_def occurs_def)

lemma install_reports_when_calls_return:
  assumes "install_calls_return w"
  shows "install_reported
           (install verbose aws_profile aws_region aws_permissions_check aws_role_policy
              enable_logs memory_size linked_account_name nr_account_id nr_api_key nr_region
              timeout role_name enable_license_key_secret integration_arn tags w) \<noteq> None"
proof -
  from assms obtain a b c d e f g h i j k where
    "boto3_Session w = Returns a" "ensure_integration_install_permissions w = Returns b"
    "validate_gql_credentials w = Returns c" "retrieve_license_key w = Returns d"
    "get_aws_account_id w = Returns e" "validate_linked_account w = Returns f"
    "create_integration_role w = Returns g" "install_license_key w = Returns h"
    "create_integration_account w = Returns i" "enable_lambda_integration w = Returns j"
    "install_log_ingestion w = Returns k"
    unfolding install_calls_return_def by (auto dest!: returnsE)
  then show ?thesis
    unfolding install_reported_def reported_None
    by (cases g) (auto simp add: install_def occurs_simps)
qed



lemmas report_defs =
  install_reported_def update_reported_def reported_def install_calls_return_def
  uninstall_calls_return_def update_calls_return_def returns_def

section \<open>The claims\<close>

subsection \<open>C1: what install folds into its overall success\<close>

text \<open>
  C1 says that the overall success install reports is true exactly when every attempted
  step returned success, the creation of the license-key secret included when the secret
  feature is enabled.

  The source does not do this for the secret. Line 139 calls
  \<^verbatim>\<open>integrations.install_license_key\<close> and drops what it returns, and \<^verbatim>\<open>install_success\<close>
  is only initialised on line 141, after the call; the three later steps are folded
  (\<^verbatim>\<open>install_success = res and install_success\<close>), and update folds the outcome of
  \<^verbatim>\<open>auto_install_license_key\<close> on line 311. In the run below the secret feature is
  enabled, the secret creation is attempted and returns failure, every other step
  succeeds, and the run prints "Install Complete" and returns normally.
\<close>

theorem install_failed_secret_reported_complete:
  "occurs is_install_secret
     (install False None None False None False 128 None (Py_int 1234567) ''api-key'' ''us'' 30 None
        True None [] world_secret_fails)
   \<and> install_license_key world_secret_fails = Returns False
   \<and> install_reported
       (install False None None False None False 128 None (Py_int 1234567) ''api-key'' ''us'' 30 None
          True None [] world_secret_fails) = Some True
   \<and> result
       (install False None None False None False 128 None (Py_int 1234567) ''api-key'' ''us'' 30 None
          True None [] world_secret_fails) = Inr ()"
  by (simp add: install_def eval_simps kind_defs world_defs report_defs)

subsection \<open>C2: update and the secret auto-install after a failed function update\<close>

text \<open>
  C2 says that, with the secret feature enabled, update attempts both of its steps
  whatever the first one returned: \<^verbatim>\<open>auto_install_license_key\<close> is called even when the
  function update returned failure.

  The source does not do this. Line 311 is
  \<^verbatim>\<open>update_success = update_success and integrations.auto_install_license_key(...)\<close>:
  the call is the right operand of \<^verbatim>\<open>and\<close>, so Python skips it when \<^verbatim>\<open>update_success\<close>
  is already false. Every other fold in the file makes its call first and folds the
  result afterwards (\<^verbatim>\<open>res = ...; update_success = res and update_success\<close>, line 308).
  In the run below the function update returns failure; the run consists of the session,
  the progress line, the function update and the failure report, and no auto-install
  call is made.
\<close>

theorem update_failed_function_skips_auto_install:
  "trace (update None None False None None None None True [] world_update_fails) =
     [Boto3_Session None None,
      Echo ''Updating newrelic-log-ingestion Lambda function in AWS account'',
      Update_log_ingestion (Session None None) None None None None None [],
      Failure ''Update Incomplete. See messages above for details.'' True]
   \<and> update_log_ingestion world_update_fails = Returns False
   \<and> \<not> occurs is_auto_install_secret
         (update None None False None None None None True [] world_update_fails)"
  by (simp add: update_def eval_simps kind_defs world_defs)

subsection \<open>C3: uninstall with force\<close>

text \<open>
  C3 says that uninstall with \<^verbatim>\<open>force\<close> issues no confirmation prompt and attempts all
  three removals (integration role, ingestion function, license-key secret) whatever the
  other inputs are.

  As stated this fails: line 216 guards the role removal by \<^verbatim>\<open>nr_account_id\<close>, which the
  removal needs as its argument. Without an account id the forced run removes the
  function and the secret only.
\<close>

theorem uninstall_force_without_account_keeps_role:
  "trace (uninstall None None False None True world_ok) =
     [Boto3_Session None None,
      Remove_log_ingestion_function (Session None None),
      Remove_license_key (Session None None),
      Done ''Uninstall Complete'']
   \<and> \<not> occurs is_remove_role (uninstall None None False None True world_ok)"
  by (simp add: uninstall_def eval_simps kind_defs)

text \<open>
  C3 as amended: uninstall with \<^verbatim>\<open>force\<close> never issues a confirmation prompt; and when no
  call raises, whatever the removals return, the run is: the session, the pre-flight check
  when it is enabled, the role removal exactly when a non-zero account id is supplied,
  then the function removal, the secret removal and the completion report, in that order.
\<close>

theorem uninstall_force_removals:
  assumes "force"
  shows "let p = uninstall aws_profile aws_region aws_permissions_check nr_account_id force w;
             session = Session aws_profile aws_region
         in \<not> occurs is_confirm p
            \<and> (uninstall_calls_return w \<longrightarrow>
                trace p =
                  [Boto3_Session aws_profile aws_region]
                  @ (if aws_permissions_check
                     then [Ensure_integration_uninstall_permissions session] else [])
                  @ (if truthy_int nr_account_id
                     then [Remove_integration_role session nr_account_id] else [])
                  @ [Remove_log_ingestion_function session, Remove_license_key session,
                     Done ''Uninstall Complete''])"
proof -
  let ?p = "uninstall aws_profile aws_region aws_permissions_check nr_account_id force w"
  have no_prompt: "\<not> occurs is_confirm ?p"
    using assms by (simp add: uninstall_def occurs_simps kind_defs)
  have run: "trace ?p =
      [Boto3_Session aws_profile aws_region]
      @ (if aws_permissions_check
         then [Ensure_integration_uninstall_permissions (Session aws_profile aws_region)] else [])
      @ (if truthy_int nr_account_id
         then [Remove_integration_role (Session aws_profile aws_region) nr_account_id] else [])
      @ [Remove_log_ingestion_function (Session aws_profile aws_region),
         Remove_license_key (Session aws_profile aws_region), Done ''Uninstall Complete'']"
    if "uninstall_calls_return w"
  proof -
    from that obtain a b c d e where
      "boto3_Session w = Returns a" "ensure_integration_uninstall_permissions w = Returns b"
      "remove_integration_role w = Returns c" "remove_log_ingestion_function w = Returns d"
      "remove_license_key w = Returns e"
      unfolding uninstall_calls_return_def by (auto dest!: returnsE)
    with assms show ?thesis
      by (simp add: uninstall_def Let_def trace_simps result_bind_eq result_call_eq
          result_ret_eq)
  qed
  from no_prompt run show ?thesis
    unfolding Let_def by blast
qed

theorem uninstall_force_removals_witness:
  "\<not> occurs is_confirm (uninstall None None True (Some 1234567) True world_removals_fail)
   \<and> uninstall_calls_return world_removals_fail
   \<and> trace (uninstall None None True (Some 1234567) True world_removals_fail) =
       [Boto3_Session None None,
        Ensure_integration_uninstall_permissions (Session None None),
        Remove_integration_role (Session None None) (Some 1234567),
        Remove_log_ingestion_function (Session None None),
        Remove_license_key (Session None None),
        Done ''Uninstall Complete'']"
  using uninstall_force_removals
    [where force = True and aws_profile = None and aws_region = None
       and aws_permissions_check = True and nr_account_id = "Some 1234567"
       and w = world_removals_fail]
  by (simp add: eval_simps world_defs report_defs)

subsection \<open>C4: uninstall without force, a declined confirmation\<close>

text \<open>
  C4: in an uninstall run without \<^verbatim>\<open>force\<close>, declining the function prompt or the secret
  prompt aborts the run at once. When the function prompt is declined, neither the
  function removal nor the secret removal is called and no completion report is printed;
  when the secret prompt is declined, the secret removal is not called and no completion
  report is printed. In both cases nothing at all follows the declined prompt in the
  trace, and a run that reached the prompt ends with \<^verbatim>\<open>click.Abort\<close>.
\<close>

theorem uninstall_declined_aborts:
  assumes "\<not> force"
  shows "let p = uninstall aws_profile aws_region aws_permissions_check nr_account_id force w
         in (click_confirm w function_prompt = Returns False \<longrightarrow>
               \<not> occurs is_remove_function p \<and> \<not> occurs is_remove_secret p
               \<and> \<not> occurs is_done p
               \<and> after (\<lambda>e. e = Confirm function_prompt True) (trace p) = []
               \<and> (Confirm function_prompt True \<in> set (trace p) \<longrightarrow> result p = Inl Abort))
            \<and> (click_confirm w secret_prompt = Returns False \<longrightarrow>
               \<not> occurs is_remove_secret p \<and> \<not> occurs is_done p
               \<and> after (\<lambda>e. e = Confirm secret_prompt True) (trace p) = []
               \<and> (Confirm secret_prompt True \<in> set (trace p) \<longrightarrow> result p = Inl Abort))"
proof -
  let ?p = "uninstall aws_profile aws_region aws_permissions_check nr_account_id force w"
  have f1: "\<not> occurs is_remove_function ?p \<and> \<not> occurs is_remove_secret ?p
            \<and> \<not> occurs is_done ?p"
    if "click_confirm w function_prompt = Returns False"
    using assms that by (simp add: uninstall_def occurs_simps kind_defs)
  have f2: "after (\<lambda>e. e = Confirm function_prompt True) (trace ?p) = []"
    if "click_confirm w function_prompt = Returns False"
    using assms that
    by (simp add: uninstall_def Let_def after_simps occurs_simps prompt_defs)
  have f3: "result ?p = Inl Abort"
    if "click_confirm w function_prompt = Returns False"
      and "Confirm function_prompt True \<in> set (trace ?p)"
    using assms that
    by (auto simp add: occurs_member uninstall_def occurs_simps result_Inl_simps)
  have s1: "\<not> occurs is_remove_secret ?p \<and> \<not> occurs is_done ?p"
    if "click_confirm w secret_prompt = Returns False"
    using assms that by (simp add: uninstall_def occurs_simps kind_defs)
  have s2: "after (\<lambda>e. e = Confirm secret_prompt True) (trace ?p) = []"
    if "click_confirm w secret_prompt = Returns False"
    using assms that
    by (simp add: uninstall_def Let_def after_simps occurs_simps prompt_defs)
  have s3: "result ?p = Inl Abort"
    if "click_confirm w secret_prompt = Returns False"
      and "Confirm secret_prompt True \<in> set (trace ?p)"
    using assms that
    by (auto simp add: occurs_member uninstall_def occurs_simps result_Inl_simps prompt_defs)
  from f1 f2 f3 s1 s2 s3 show ?thesis
    unfolding Let_def by blast
qed

theorem uninstall_declined_aborts_witness:
  "click_confirm world_declines_function function_prompt = Returns False
   \<and> trace (uninstall None None False (Some 1234567) False world_declines_function) =
       [Boto3_Session None None,
        Confirm role_prompt False,
        Remove_integration_role (Session None None) (Some 1234567),
        Confirm function_prompt True]
   \<and> result (uninstall None None False (Some 1234567) False world_declines_function) = Inl Abort
   \<and> \<not> occurs is_remove_function
         (uninstall None None False (Some 1234567) False world_declines_function)
   \<and> click_confirm world_declines_secret secret_prompt = Returns False
   \<and> trace (uninstall None None False None False world_declines_secret) =
       [Boto3_Session None None,
        Confirm function_prompt True,
        Remove_log_ingestion_function (Session None None),
        Confirm secret_prompt True]
   \<and> result (uninstall None None False None False world_declines_secret) = Inl Abort
   \<and> \<not> occurs is_remove_secret (uninstall None None False None False world_declines_secret)"
  using uninstall_declined_aborts
    [where force = False and aws_profile = None and aws_region = None
       and aws_permissions_check = False and nr_account_id = "Some 1234567"
       and w = world_declines_function]
    uninstall_declined_aborts
    [where force = False and aws_profile = None and aws_region = None
       and aws_permissions_check = False and nr_account_id = None
       and w = world_declines_secret]
  by (simp add: uninstall_def eval_simps kind_defs world_defs prompt_defs)

subsection \<open>C5: the role call comes before the link call\<close>

text \<open>
  C5: in every install run the call of \<^verbatim>\<open>create_integration_role\<close> (which also handles a
  supplied pre-existing ARN, passed to it as \<^verbatim>\<open>integration_arn\<close>) is made and has
  returned before any \<^verbatim>\<open>create_integration_account\<close> call, and the link is only created
  when a role is available: no link call precedes the role call in the trace, and a link
  call that occurs carries the role that the role call returned.
\<close>

theorem install_role_before_link:
  "let p = install verbose aws_profile aws_region aws_permissions_check aws_role_policy
             enable_logs memory_size linked_account_name nr_account_id nr_api_key nr_region
             timeout role_name enable_license_key_secret integration_arn tags w
   in precedes is_create_role is_create_link (trace p)
      \<and> (\<forall>g a n r. Create_integration_account g a n r \<in> set (trace p) \<longrightarrow>
            create_integration_role w = Returns (Some r))"
proof -
  let ?p = "install verbose aws_profile aws_region aws_permissions_check aws_role_policy
             enable_logs memory_size linked_account_name nr_account_id nr_api_key nr_region
             timeout role_name enable_license_key_secret integration_arn tags w"
  have order: "precedes is_create_role is_create_link (trace ?p)"
    by (simp add: install_def precedes_simps occurs_simps kind_defs)
  have role: "create_integration_role w = Returns (Some r)"
    if "Create_integration_account g a n r \<in> set (trace ?p)" for g a n r
    using that by (auto simp add: occurs_member install_def occurs_simps)
  from order role show ?thesis
    unfolding Let_def by blast
qed

theorem install_role_before_link_witness:
  "Create_integration_account (GqlClient 0) (Py_int 1234567)
       ''New Relic Lambda Integration - 123456789012''
       (Role ''arn:aws:iam::123456789012:role/nr'')
     \<in> set (trace (install False None None False None False 128 None (Py_int 1234567) ''api-key''
                     ''us'' 30 None True None [] world_ok))
   \<and> precedes is_create_role is_create_link
       (trace (install False None None False None False 128 None (Py_int 1234567) ''api-key''
                 ''us'' 30 None True None [] world_ok))
   \<and> create_integration_role world_ok = Returns (Some (Role ''arn:aws:iam::123456789012:role/nr''))"
  using install_role_before_link
    [where verbose = False and aws_profile = None and aws_region = None
       and aws_permissions_check = False and aws_role_policy = None and enable_logs = False
       and memory_size = 128 and linked_account_name = None and nr_account_id = "Py_int 1234567"
       and nr_api_key = "''api-key''" and nr_region = "''us''" and timeout = 30
       and role_name = None and enable_license_key_secret = True and integration_arn = None
       and tags = "[]" and w = world_ok]
  by (simp add: install_def eval_simps kind_defs)

subsection \<open>C6: update with the secret feature disabled\<close>




subsection \<open>C7: invalid platform credentials\<close>

text \<open>
  C7: in every install run where \<^verbatim>\<open>api.validate_gql_credentials\<close> fails with an
  AuthenticationError, no role, secret, linked-account, feature-flag or
  ingestion-function call is made, and the run that reached the validation ends with that
  AuthenticationError.
\<close>

theorem install_invalid_credentials_aborts:
  assumes "validate_gql_credentials w = Raises AuthenticationError"
  shows "let p = install verbose aws_profile aws_region aws_permissions_check aws_role_policy
                   enable_logs memory_size linked_account_name nr_account_id nr_api_key
                   nr_region timeout role_name enable_license_key_secret integration_arn tags w
         in \<not> occurs is_install_mutation p
            \<and> after is_validate_credentials (trace p) = []
            \<and> (occurs is_validate_credentials p \<longrightarrow> result p = Inl AuthenticationError)"
proof -
  let ?p = "install verbose aws_profile aws_region aws_permissions_check aws_role_policy
              enable_logs memory_size linked_account_name nr_account_id nr_api_key
              nr_region timeout role_name enable_license_key_secret integration_arn tags w"
  have no_mutation: "\<not> occurs is_install_mutation ?p"
    using assms by (simp add: install_def occurs_simps kind_defs)
  have stops: "after is_validate_credentials (trace ?p) = []"
    using assms by (simp add: install_def Let_def after_simps occurs_simps kind_defs)
  have signalled: "result ?p = Inl AuthenticationError"
    if "occurs is_validate_credentials ?p"
    using assms that
    by (auto simp add: install_def occurs_simps result_Inl_simps kind_defs)
  from no_mutation stops signalled show ?thesis
    unfolding Let_def by blast
qed

theorem install_invalid_credentials_aborts_witness:
  "validate_gql_credentials world_bad_credentials = Raises AuthenticationError
   \<and> trace (install False None None True None False 128 None (Py_int 1234567) ''api-key'' ''us'' 30
              None True None [] world_bad_credentials) =
       [Boto3_Session None None,
        Ensure_integration_install_permissions (Session None None),
        Echo ''Validating New Relic credentials'',
        Validate_gql_credentials (Py_int 1234567) ''api-key'' ''us'']
   \<and> result (install False None None True None False 128 None (Py_int 1234567) ''api-key'' ''us'' 30
               None True None [] world_bad_credentials) = Inl AuthenticationError
   \<and> \<not> occurs is_install_mutation
         (install False None None True None False 128 None (Py_int 1234567) ''api-key'' ''us'' 30
            None True None [] world_bad_credentials)"
  using install_invalid_credentials_aborts
    [where verbose = False and aws_profile = None and aws_region = None
       and aws_permissions_check = True and aws_role_policy = None and enable_logs = False
       and memory_size = 128 and linked_account_name = None and nr_account_id = "Py_int 1234567"
       and nr_api_key = "''api-key''" and nr_region = "''us''" and timeout = 30
       and role_name = None and enable_license_key_secret = True and integration_arn = None
       and tags = "[]" and w = world_bad_credentials]
  by (simp add: install_def eval_simps kind_defs world_defs)

subsection \<open>C8: install with the secret feature disabled\<close>

text \<open>
  C8: in every install run with the license-key-secret feature disabled, no
  \<^verbatim>\<open>install_license_key\<close> call occurs, whatever the other inputs and whatever the other
  calls answer.
\<close>

theorem install_secret_disabled_no_secret_call:
  assumes "\<not> enable_license_key_secret"
  shows "\<not> occurs is_install_secret
           (install verbose aws_profile aws_region aws_permissions_check aws_role_policy
              enable_logs memory_size linked_account_name nr_account_id nr_api_key nr_region
              timeout role_name enable_license_key_secret integration_arn tags w)"
proof -
  let ?p = "install verbose aws_profile aws_region aws_permissions_check aws_role_policy
              enable_logs memory_size linked_account_name nr_account_id nr_api_key nr_region
              timeout role_name enable_license_key_secret integration_arn tags w"
  have gated: "enable_license_key_secret" if "occurs is_install_secret ?p"
    using that by (auto simp add: install_def occurs_simps kind_defs)
  with assms show ?thesis
    by blast
qed

theorem install_secret_disabled_no_secret_call_witness:
  "\<not> occurs is_install_secret
       (install False None None False None False 128 None (Py_int 1234567) ''api-key'' ''us'' 30 None
          False None [] world_ok)
   \<and> occurs is_install_ingestion
       (install False None None False None False 128 None (Py_int 1234567) ''api-key'' ''us'' 30 None
          False None [] world_ok)
   \<and> install_reported
       (install False None None False None False 128 None (Py_int 1234567) ''api-key'' ''us'' 30 None
          False None [] world_ok) = Some True"
  using install_secret_disabled_no_secret_call
    [where verbose = False and aws_profile = None and aws_region = None
       and aws_permissions_check = False and aws_role_policy = None and enable_logs = False
       and memory_size = 128 and linked_account_name = None and nr_account_id = "Py_int 1234567"
       and nr_api_key = "''api-key''" and nr_region = "''us''" and timeout = 30
       and role_name = None and enable_license_key_secret = False and integration_arn = None
       and tags = "[]" and w = world_ok]
  by (simp add: install_def eval_simps kind_defs report_defs)

subsection \<open>C9: update creates neither role nor link\<close>

text \<open>
  C9: in every update run, under any inputs and any answers, no role-creation call and no
  linked-account-creation call is issued; every event of the run is the session, the
  pre-flight check, a printed line, the function update, the secret auto-install, the
  secret removal or the final report.
\<close>

theorem update_never_creates_role_or_link:
  "let p = update aws_profile aws_region aws_permissions_check enable_logs memory_size timeout
             role_name enable_license_key_secret tags w
   in \<not> occurs is_create_role p \<and> \<not> occurs is_create_link p
      \<and> \<not> occurs (\<lambda>e. \<not> is_update_call e) p"
proof -
  let ?p = "update aws_profile aws_region aws_permissions_check enable_logs memory_size timeout
              role_name enable_license_key_secret tags w"
  have "\<not> occurs is_create_role ?p"
    by (simp add: update_def occurs_simps kind_defs)
  moreover have "\<not> occurs is_create_link ?p"
    by (simp add: update_def occurs_simps kind_defs)
  moreover have "\<not> occurs (\<lambda>e. \<not> is_update_call e) ?p"
    by (simp add: update_def occurs_simps kind_defs)
  ultimately show ?thesis
    unfolding Let_def by blast
qed

subsection \<open>C10: install when no role comes back\<close>

text \<open>
  C10: in every install run where \<^verbatim>\<open>create_integration_role\<close> returns no role, neither the
  linked-account creation nor the feature-flag enablement is called, and the overall
  success the run reports is the outcome of the ingestion-function creation alone (the
  outcome of the secret creation, when that is enabled, has no part in it: line 139).

  In full: a run that reports has called the role creation and then the
  ingestion-function creation, and reports what the latter returned. When no call raises,
  the run is: the session, the pre-flight check when it is enabled, the credential
  validation, the license-key retrieval, the account-id lookup when no linked-account
  name is given, the linked-account check, the role creation, the secret creation when it
  is enabled, the ingestion-function creation and the report, with the progress lines in
  between and, after a completion message under \<open>verbose\<close>, the next-steps hint.
\<close>

theorem install_without_role:
  assumes "create_integration_role w = Returns None"
  shows "let p = install verbose aws_profile aws_region aws_permissions_check aws_role_policy
                   enable_logs memory_size linked_account_name nr_account_id nr_api_key
                   nr_region timeout role_name enable_license_key_secret integration_arn tags w;
             session = Session aws_profile aws_region
         in \<not> occurs is_create_link p \<and> \<not> occurs is_enable_flag p
            \<and> (\<forall>b. install_reported p = Some b \<longrightarrow>
                  b = (install_log_ingestion w = Returns True)
                  \<and> occurs is_create_role p \<and> occurs is_install_ingestion p)
            \<and> precedes is_create_role is_install_ingestion (trace p)
            \<and> (install_calls_return w \<longrightarrow> install_reported p \<noteq> None)
            \<and> (\<forall>client key account ok.
                  install_calls_return w \<and> validate_gql_credentials w = Returns client
                  \<and> retrieve_license_key w = Returns key
                  \<and> get_aws_account_id w = Returns account
                  \<and> install_log_ingestion w = Returns ok \<longrightarrow>
                  trace p =
                    [Boto3_Session aws_profile aws_region]
                    @ (if aws_permissions_check
                       then [Ensure_integration_install_permissions session] else [])
                    @ [Echo ''Validating New Relic credentials'',
                       Validate_gql_credentials nr_account_id nr_api_key nr_region,
                       Echo ''Retrieving integration license key'',
                       Retrieve_license_key client]
                    @ (if truthy_str linked_account_name then []
                       else [Get_aws_account_id session])
                    @ [Echo ''Checking for a pre-existing link between New Relic and AWS'',
                       Validate_linked_account session client
                         (if truthy_str linked_account_name then str_of linked_account_name
                          else ''New Relic Lambda Integration - '' @ account),
                       Echo ''Creating the AWS role for the New Relic AWS Lambda Integration'',
                       Create_integration_role session aws_role_policy nr_account_id
                         integration_arn tags]
                    @ (if enable_license_key_secret
                       then [Echo ''Creating the managed secret for the New Relic License Key'',
                             Install_license_key session key tags]
                       else [])
                    @ [Echo ''Creating newrelic-log-ingestion Lambda function in AWS account'',
                       Install_log_ingestion session key enable_logs memory_size timeout
                         role_name tags]
                    @ (if ok
                       then Done ''Install Complete''
                            # (if verbose
                               then trace (next_steps aws_profile aws_region nr_account_id)
                               else [])
                       else [Failure ''Install Incomplete. See messages above for details.''
                               True]))"
proof -
  let ?p = "install verbose aws_profile aws_region aws_permissions_check aws_role_policy
              enable_logs memory_size linked_account_name nr_account_id nr_api_key
              nr_region timeout role_name enable_license_key_secret integration_arn tags w"
  let ?s = "Session aws_profile aws_region"
  have no_link: "\<not> occurs is_create_link ?p"
    using assms by (simp add: install_def occurs_simps kind_defs)
  have no_flag: "\<not> occurs is_enable_flag ?p"
    using assms by (simp add: install_def occurs_simps kind_defs)
  have aggregate: "b = (install_log_ingestion w = Returns True)"
    if "install_reported ?p = Some b" for b
    using install_reported_eq [OF that] assms by simp
  have called: "occurs is_create_role ?p \<and> occurs is_install_ingestion ?p"
    if "install_reported ?p = Some b" for b
  proof -
    from that have "install_reported ?p \<noteq> None"
      by simp
    then have "occurs (\<lambda>e. e = Done ''Install Complete''
        \<or> e = Failure ''Install Incomplete. See messages above for details.'' True) ?p"
      unfolding install_reported_def reported_None .
    then show ?thesis
      by (auto simp add: install_def occurs_simps kind_defs)
  qed
  have order: "precedes is_create_role is_install_ingestion (trace ?p)"
    by (simp add: install_def precedes_simps occurs_simps kind_defs)
  have total: "install_reported ?p \<noteq> None" if "install_calls_return w"
    using that by (rule install_reports_when_calls_return)
  have run: "trace ?p =
      [Boto3_Session aws_profile aws_region]
      @ (if aws_permissions_check then [Ensure_integration_install_permissions ?s] else [])
      @ [Echo ''Validating New Relic credentials'',
         Validate_gql_credentials nr_account_id nr_api_key nr_region,
         Echo ''Retrieving integration license key'',
         Retrieve_license_key client]
      @ (if truthy_str linked_account_name then [] else [Get_aws_account_id ?s])
      @ [Echo ''Checking for a pre-existing link between New Relic and AWS'',
         Validate_linked_account ?s client
           (if truthy_str linked_account_name then str_of linked_account_name
            else ''New Relic Lambda Integration - '' @ account),
         Echo ''Creating the AWS role for the New Relic AWS Lambda Integration'',
         Create_integration_role ?s aws_role_policy nr_account_id integration_arn tags]
      @ (if enable_license_key_secret
         then [Echo ''Creating the managed secret for the New Relic License Key'',
               Install_license_key ?s key tags]
         else [])
      @ [Echo ''Creating newrelic-log-ingestion Lambda function in AWS account'',
         Install_log_ingestion ?s key enable_logs memory_size timeout role_name tags]
      @ (if ok
         then Done ''Install Complete''
              # (if verbose then trace (next_steps aws_profile aws_region nr_account_id)
                 else [])
         else [Failure ''Install Incomplete. See messages above for details.'' True])"
    if all: "install_calls_return w"
      and client: "validate_gql_credentials w = Returns client"
      and key: "retrieve_license_key w = Returns key"
      and account: "get_aws_account_id w = Returns account"
      and ok: "install_log_ingestion w = Returns ok"
    for client key account ok
  proof -
    from all obtain a b f h where
      "boto3_Session w = Returns a" "ensure_integration_install_permissions w = Returns b"
      "validate_linked_account w = Returns f" "install_license_key w = Returns h"
      unfolding install_calls_return_def by (auto dest!: returnsE)
    with assms client key account ok show ?thesis
      by (simp add: install_def Let_def trace_bind trace_call trace_echo trace_done
          trace_failure trace_ret result_bind_eq result_call_eq result_ret_eq result_echo_eq
          result_done_eq)
  qed
  from no_link no_flag aggregate called order total run show ?thesis
    unfolding Let_def by blast
qed

theorem install_without_role_witness:
  "create_integration_role world_no_role = Returns None
   \<and> install_calls_return world_no_role
   \<and> trace (install False None None False None False 128 None (Py_int 1234567) ''api-key''
              ''us'' 30 None True None [] world_no_role) =
       [Boto3_Session None None,
        Echo ''Validating New Relic credentials'',
        Validate_gql_credentials (Py_int 1234567) ''api-key'' ''us'',
        Echo ''Retrieving integration license key'',
        Retrieve_license_key (GqlClient 0),
        Get_aws_account_id (Session None None),
        Echo ''Checking for a pre-existing link between New Relic and AWS'',
        Validate_linked_account (Session None None) (GqlClient 0)
          ''New Relic Lambda Integration - 123456789012'',
        Echo ''Creating the AWS role for the New Relic AWS Lambda Integration'',
        Create_integration_role (Session None None) None (Py_int 1234567) None [],
        Echo ''Creating the managed secret for the New Relic License Key'',
        Install_license_key (Session None None) ''license'' [],
        Echo ''Creating newrelic-log-ingestion Lambda function in AWS account'',
        Install_log_ingestion (Session None None) ''license'' False 128 30 None [],
        Done ''Install Complete'']
   \<and> install_reported
       (install False None None False None False 128 None (Py_int 1234567) ''api-key''
          ''us'' 30 None True None [] world_no_role) = Some True
   \<and> install_log_ingestion world_no_role = Returns True
   \<and> occurs is_create_role
       (install False None None False None False 128 None (Py_int 1234567) ''api-key''
          ''us'' 30 None True None [] world_no_role)
   \<and> occurs is_install_ingestion
       (install False None None False None False 128 None (Py_int 1234567) ''api-key''
          ''us'' 30 None True None [] world_no_role)
   \<and> \<not> occurs is_create_link
         (install False None None False None False 128 None (Py_int 1234567) ''api-key''
            ''us'' 30 None True None [] world_no_role)
   \<and> \<not> occurs is_enable_flag
         (install False None None False None False 128 None (Py_int 1234567) ''api-key''
            ''us'' 30 None True None [] world_no_role)"
  using install_without_role
    [where verbose = False and aws_profile = None and aws_region = None
       and aws_permissions_check = False and aws_role_policy = None and enable_logs = False
       and memory_size = 128 and linked_account_name = None and nr_account_id = "Py_int 1234567"
       and nr_api_key = "''api-key''" and nr_region = "''us''" and timeout = 30
       and role_name = None and enable_license_key_secret = True and integration_arn = None
       and tags = "[]" and w = world_no_role]
  by (simp add: install_def eval_simps kind_defs world_defs report_defs)

end
